theory Spec2Isabelle
  imports Main "HOL-Library.Word" "HOL-Library.Sublist"
begin

unbundle bit_operations_syntax

section \<open>Python values used by the n8n webhook router\<close>

text \<open>
  The router (\<^verbatim>\<open>backend/open_webui/routers/n8n_webhook.py\<close>) works on Python \<^verbatim>\<open>str\<close>
  and \<^verbatim>\<open>bytes\<close>. A \<^verbatim>\<open>str\<close> is a sequence of Unicode code points, a \<^verbatim>\<open>bytes\<close> object a
  sequence of octets; HOL's \<open>char\<close> is an octet, so \<open>string\<close> models \<^verbatim>\<open>bytes\<close> and a
  list of code points models \<^verbatim>\<open>str\<close>.
\<close>

type_synonym str = "nat list"
type_synonym bytes = "string"

definition lit :: "string \<Rightarrow> str" where
  \<comment> \<open>an ASCII literal of the source, as a \<^verbatim>\<open>str\<close>\<close>
  "lit s = map of_char s"

definition nl :: str where
  \<comment> \<open>\<^verbatim>\<open>"\n"\<close>\<close>
  "nl = [10]"

subsection \<open>\<^verbatim>\<open>str.strip()\<close> and \<^verbatim>\<open>str.startswith\<close>\<close>

definition isspace :: "nat \<Rightarrow> bool" where
  \<comment> \<open>the code points \<^verbatim>\<open>str.isspace\<close> accepts, which \<^verbatim>\<open>str.strip()\<close> removes\<close>
  "isspace c \<longleftrightarrow>
     (9 \<le> c \<and> c \<le> 13) \<or> (28 \<le> c \<and> c \<le> 32) \<or> c = 133 \<or> c = 160 \<or> c = 5760 \<or>
     (8192 \<le> c \<and> c \<le> 8202) \<or> c = 8232 \<or> c = 8233 \<or> c = 8239 \<or> c = 8287 \<or> c = 12288"

definition lstrip :: "str \<Rightarrow> str" where
  "lstrip t = dropWhile isspace t"

definition rstrip :: "str \<Rightarrow> str" where
  "rstrip t = rev (dropWhile isspace (rev t))"

definition strip :: "str \<Rightarrow> str" where
  "strip t = lstrip (rstrip t)"

definition startswith :: "str \<Rightarrow> str \<Rightarrow> bool" where
  \<comment> \<open>\<^verbatim>\<open>s.startswith(p)\<close>\<close>
  "startswith s p \<longleftrightarrow> take (length p) s = p"

definition endswith :: "str \<Rightarrow> str \<Rightarrow> bool" where
  \<comment> \<open>\<^verbatim>\<open>s.endswith(p)\<close>\<close>
  "endswith s p \<longleftrightarrow> length p \<le> length s \<and> drop (length s - length p) s = p"

subsection \<open>\<^verbatim>\<open>bytes.decode('utf-8')\<close>\<close>

definition cont :: "char \<Rightarrow> bool" where
  \<comment> \<open>a continuation octet \<^verbatim>\<open>10xxxxxx\<close>\<close>
  "cont b \<longleftrightarrow> 128 \<le> (of_char b :: nat) \<and> (of_char b :: nat) \<le> 191"

definition low6 :: "char \<Rightarrow> nat" where
  "low6 b = of_char b mod 64"

definition second_ok :: "nat \<Rightarrow> char \<Rightarrow> bool" where
  \<comment> \<open>the range of the second octet after the lead octet \<open>n0\<close>: no overlong form, no
      surrogate, nothing above U+10FFFF\<close>
  "second_ok n0 b \<longleftrightarrow>
     (if n0 = 224 then 160 else if n0 = 240 then 144 else 128) \<le> (of_char b :: nat) \<and>
     (of_char b :: nat) \<le> (if n0 = 237 then 159 else if n0 = 244 then 143 else 191)"

fun utf8_decode :: "bytes \<Rightarrow> str option" where
  "utf8_decode [] = Some []"
| "utf8_decode (b0 # bs) =
     (let n0 = (of_char b0 :: nat) in
      if n0 < 128 then map_option ((#) n0) (utf8_decode bs)
      else if 194 \<le> n0 \<and> n0 \<le> 223 then
        (case bs of
           b1 # r \<Rightarrow>
             if cont b1 then map_option ((#) ((n0 mod 32) * 64 + low6 b1)) (utf8_decode r)
             else None
         | _ \<Rightarrow> None)
      else if 224 \<le> n0 \<and> n0 \<le> 239 then
        (case bs of
           b1 # b2 # r \<Rightarrow>
             if second_ok n0 b1 \<and> cont b2
             then map_option ((#) ((n0 mod 16) * 4096 + low6 b1 * 64 + low6 b2)) (utf8_decode r)
             else None
         | _ \<Rightarrow> None)
      else if 240 \<le> n0 \<and> n0 \<le> 244 then
        (case bs of
           b1 # b2 # b3 # r \<Rightarrow>
             if second_ok n0 b1 \<and> cont b2 \<and> cont b3
             then map_option
                    ((#) ((n0 mod 8) * 262144 + low6 b1 * 4096 + low6 b2 * 64 + low6 b3))
                    (utf8_decode r)
             else None
         | _ \<Rightarrow> None)
      else None)"

subsection \<open>Numbers as text\<close>

definition digit_char :: "nat \<Rightarrow> nat" where
  \<comment> \<open>the code point of a digit in base up to 16, lower case\<close>
  "digit_char d = (if d < 10 then 48 + d else 87 + d)"

fun digits :: "nat \<Rightarrow> str" where
  "digits n = (if n < 10 then [digit_char n] else digits (n div 10) @ [digit_char (n mod 10)])"

declare digits.simps [simp del]

definition str_int :: "int \<Rightarrow> str" where
  \<comment> \<open>\<^verbatim>\<open>str(i)\<close> for an \<^verbatim>\<open>int\<close>, as an f-string writes it\<close>
  "str_int i = (if i < 0 then 45 # digits (nat (- i)) else digits (nat i))"

fun hex_digits :: "nat \<Rightarrow> nat \<Rightarrow> str" where
  \<comment> \<open>the last \<open>w\<close> hexadecimal digits of \<open>n\<close>, lower case, padded with zeros\<close>
  "hex_digits 0 n = []"
| "hex_digits (Suc w) n = hex_digits w (n div 16) @ [digit_char (n mod 16)]"

definition hex4 :: "nat \<Rightarrow> str" where
  \<comment> \<open>\<^verbatim>\<open>'{0:04x}'.format(n)\<close> for \<open>n < 65536\<close>\<close>
  "hex4 n = hex_digits 4 n"

definition uuid_hex :: "128 word \<Rightarrow> str" where
  \<comment> \<open>\<^verbatim>\<open>UUID.hex\<close>, which is \<^verbatim>\<open>'%032x' % self.int\<close>\<close>
  "uuid_hex u = hex_digits 32 (unat u)"

subsection \<open>JSON values: what \<^verbatim>\<open>json.loads\<close> returns and \<^verbatim>\<open>json.dumps\<close> accepts\<close>

text \<open>
  A \<^verbatim>\<open>float\<close> is kept as its IEEE 754 binary64 bit pattern: the router only passes floats
  through. A \<^verbatim>\<open>dict\<close> is an association list in insertion order; its keys are distinct and
  a lookup takes the first binding.
\<close>

datatype json =
    JNull
  | JBool bool
  | JInt int
  | JFloat "64 word"
  | JStr str
  | JList "json list"
  | JObj "(str \<times> json) list"

definition dict_get :: "(str \<times> json) list \<Rightarrow> str \<Rightarrow> json \<Rightarrow> json" where
  \<comment> \<open>\<^verbatim>\<open>d.get(key, default)\<close>\<close>
  "dict_get d k dflt = (case map_of d k of Some v \<Rightarrow> v | None \<Rightarrow> dflt)"

fun truthy :: "json \<Rightarrow> bool" where
  \<comment> \<open>Python's truth value of an object, as \<^verbatim>\<open>if x:\<close> tests it\<close>
  "truthy JNull = False"
| "truthy (JBool b) = b"
| "truthy (JInt i) = (i \<noteq> 0)"
| "truthy (JFloat x) = (take_bit 63 x \<noteq> 0)"
| "truthy (JStr s) = (s \<noteq> [])"
| "truthy (JList xs) = (xs \<noteq> [])"
| "truthy (JObj d) = (d \<noteq> [])"

fun type_name :: "json \<Rightarrow> string" where
  "type_name JNull = ''NoneType''"
| "type_name (JBool b) = ''bool''"
| "type_name (JInt i) = ''int''"
| "type_name (JFloat x) = ''float''"
| "type_name (JStr s) = ''str''"
| "type_name (JList xs) = ''list''"
| "type_name (JObj d) = ''dict''"

definition join :: "str \<Rightarrow> str list \<Rightarrow> str" where
  \<comment> \<open>\<^verbatim>\<open>sep.join(parts)\<close>\<close>
  "join sep parts = (case parts of [] \<Rightarrow> [] | p # ps \<Rightarrow> p @ concat (map ((@) sep) ps))"

definition escape_char :: "nat \<Rightarrow> str" where
  \<comment> \<open>one code point under \<^verbatim>\<open>json.encoder.py_encode_basestring_ascii\<close>\<close>
  "escape_char c =
     (if c = 34 then [92, 34]
      else if c = 92 then [92, 92]
      else if c = 10 then [92, 110]
      else if c = 13 then [92, 114]
      else if c = 9 then [92, 116]
      else if c = 12 then [92, 102]
      else if c = 8 then [92, 98]
      else if 32 \<le> c \<and> c \<le> 126 then [c]
      else if c < 65536 then [92, 117] @ hex4 c
      else (let n = c - 65536
            in [92, 117] @ hex4 (55296 + (n div 1024) mod 1024) @
               [92, 117] @ hex4 (56320 + n mod 1024)))"

definition encode_basestring_ascii :: "str \<Rightarrow> str" where
  "encode_basestring_ascii s = [34] @ concat (map escape_char s) @ [34]"

definition dumps_float :: "(64 word \<Rightarrow> str) \<Rightarrow> 64 word \<Rightarrow> str" where
  \<comment> \<open>\<^verbatim>\<open>json.encoder.floatstr\<close>: the three special values, else \<^verbatim>\<open>float.__repr__\<close>\<close>
  "dumps_float float_repr x =
     (if take_bit 63 x = 0x7FF0000000000000 then
        (if bit x 63 then lit ''-Infinity'' else lit ''Infinity'')
      else if take_bit 11 (drop_bit 52 x) = 0x7FF then lit ''NaN''
      else float_repr x)"

primrec json_dumps :: "(64 word \<Rightarrow> str) \<Rightarrow> json \<Rightarrow> str" where
  \<comment> \<open>\<^verbatim>\<open>json.dumps(obj)\<close> with its defaults: \<^verbatim>\<open>ensure_ascii=True\<close>, separators
      \<^verbatim>\<open>', '\<close> and \<^verbatim>\<open>': '\<close>, keys in insertion order\<close>
  "json_dumps float_repr JNull = lit ''null''"
| "json_dumps float_repr (JBool b) = (if b then lit ''true'' else lit ''false'')"
| "json_dumps float_repr (JInt i) = str_int i"
| "json_dumps float_repr (JFloat x) = dumps_float float_repr x"
| "json_dumps float_repr (JStr s) = encode_basestring_ascii s"
| "json_dumps float_repr (JList xs) =
     lit ''['' @ join (lit '', '') (map (json_dumps float_repr) xs) @ lit '']''"
| "json_dumps float_repr (JObj d) =
     lit ''{'' @
     join (lit '', '')
       (map (\<lambda>(k, v). encode_basestring_ascii k @ lit '': '' @ v)
          (map (map_prod id (json_dumps float_repr)) d)) @
     lit ''}''"

definition attribute_error :: "json \<Rightarrow> str" where
  \<comment> \<open>the text of the \<^verbatim>\<open>AttributeError\<close> that \<^verbatim>\<open>result.get\<close> raises when \<^verbatim>\<open>result\<close> is no dict\<close>
  "attribute_error v =
     [39] @ lit (type_name v) @ [39] @ lit '' object has no attribute '' @ [39] @ lit ''get'' @ [39]"

section \<open>The world the router runs in\<close>

text \<open>
  An exception is kept as the class the \<^verbatim>\<open>except\<close> clauses tell apart
  (\<^verbatim>\<open>aiohttp.ClientError\<close> and its subclasses, or any other \<^verbatim>\<open>Exception\<close>) with the text
  \<^verbatim>\<open>str(e)\<close>.
\<close>

datatype exn = ClientError str | OtherException str

record http_request =
  url :: str
  headers :: "(str \<times> str) list"
  json_payload :: json
  ssl :: bool
  total_timeout :: int

text \<open>
  The \<^verbatim>\<open>aiohttp\<close> response: its status and what each of the three ways of reading the body
  gives. \<open>content\<close> lists the lines the iteration \<^verbatim>\<open>async for line in response.content\<close>
  delivers and \<open>content_exn\<close> the exception that ends the iteration after them, if any.
\<close>

record response =
  status :: int
  text_result :: "exn + str"
  json_result :: "exn + json"
  content :: "bytes list"
  content_exn :: "exn option"

record world =
  post :: "http_request \<Rightarrow> exn + response"
    \<comment> \<open>\<^verbatim>\<open>session.post(...)\<close>: raises or answers\<close>
  uuid4 :: "128 word"
    \<comment> \<open>the \<^verbatim>\<open>int\<close> of the UUID that \<^verbatim>\<open>uuid.uuid4()\<close> draws\<close>
  time_time :: int
    \<comment> \<open>\<^verbatim>\<open>int(time.time())\<close>\<close>
  float_repr :: "64 word \<Rightarrow> str"
    \<comment> \<open>\<^verbatim>\<open>float.__repr__\<close>\<close>
  str_of :: "json \<Rightarrow> str"
    \<comment> \<open>\<^verbatim>\<open>str(result)\<close> of a value that \<^verbatim>\<open>json.loads\<close> returned\<close>
  decode_error :: "bytes \<Rightarrow> str"
    \<comment> \<open>\<^verbatim>\<open>str(e)\<close> of the \<^verbatim>\<open>UnicodeDecodeError\<close> that decoding these bytes raises\<close>

record settings =
  N8N_WEBHOOK_URL :: str
  N8N_WEBHOOK_AUTH_TOKEN :: str
  N8N_MODEL_NAME :: str
  N8N_MODEL_DESCRIPTION :: str
  N8N_TIMEOUT :: int
  N8N_MAX_RETRIES :: int
  N8N_DEFAULT_TEMPERATURE :: "64 word"
  N8N_DEFAULT_MAX_TOKENS :: int
  N8N_DEFAULT_TOP_P :: "64 word"
  N8N_DEBUG :: bool

section \<open>The stream translator: \<^verbatim>\<open>stream_n8n_response\<close>\<close>

text \<open>
  What a call of the generator does, in the order it does it: the requests it posts, the way
  it reads the body of the response, the lines it hands to the logger and the strings it
  yields.
\<close>

text \<open>
  The logger's level is not modelled: \<open>logged\<close> holds every line handed to \<^verbatim>\<open>log.info\<close>
  or \<^verbatim>\<open>log.error\<close>. Neither is the cancellation of the generator by a client that
  disconnects.
\<close>

datatype body_read = ReadText | ReadContent | ReadJson

datatype level = INFO | ERROR

record run =
  sent :: "http_request list"
  body_reads :: "body_read list"
  logged :: "(level \<times> str) list"
  yielded :: "str list"

definition sse :: "str \<Rightarrow> str" where
  \<comment> \<open>\<^verbatim>\<open>f"data: {payload}\n\n"\<close>\<close>
  "sse payload = lit ''data: '' @ payload @ nl @ nl"

definition DONE :: str where
  \<comment> \<open>\<^verbatim>\<open>"data: [DONE]\n\n"\<close>\<close>
  "DONE = lit ''data: [DONE]'' @ nl @ nl"

definition error_payload :: "str \<Rightarrow> json" where
  \<comment> \<open>\<^verbatim>\<open>{'error': message}\<close>\<close>
  "error_payload message = JObj [(lit ''error'', JStr message)]"

definition on_exception :: "world \<Rightarrow> exn \<Rightarrow> run \<Rightarrow> run" where
  \<comment> \<open>the two \<^verbatim>\<open>except\<close> clauses, entered after the effects \<open>r\<close> of the \<^verbatim>\<open>try\<close> body so far\<close>
  "on_exception W e r =
     (case e of
        ClientError m \<Rightarrow>
          r\<lparr>logged := logged r @ [(ERROR, lit ''n8n webhook connection error: '' @ m)],
            yielded := yielded r @
              [sse (json_dumps (float_repr W) (error_payload (lit ''Connection error: '' @ m)))]\<rparr>
      | OtherException m \<Rightarrow>
          r\<lparr>logged := logged r @ [(ERROR, lit ''n8n webhook unexpected error: '' @ m)],
            yielded := yielded r @
              [sse (json_dumps (float_repr W) (error_payload (lit ''Unexpected error: '' @ m)))]\<rparr>)"

fun relay :: "world \<Rightarrow> bytes list \<Rightarrow> str list \<times> exn option" where
  \<comment> \<open>the loop over \<^verbatim>\<open>response.content\<close>: the frames yielded, and the exception that
      stopped the loop when a line is not UTF-8\<close>
  "relay W [] = ([], None)"
| "relay W (line # rest) =
     (if line \<noteq> [] then
        (case utf8_decode line of
           None \<Rightarrow> ([], Some (OtherException (decode_error W line)))
         | Some t \<Rightarrow>
             (let decoded_line = strip t;
                  out = (if startswith decoded_line (lit ''data: '') then [decoded_line @ nl @ nl]
                         else if decoded_line \<noteq> [] then [sse decoded_line]
                         else [])
              in case relay W rest of (frames, x) \<Rightarrow> (out @ frames, x)))
      else relay W rest)"

definition build_headers :: "str option \<Rightarrow> (str \<times> str) list" where
  "build_headers auth_token =
     (let headers = [(lit ''Content-Type'', lit ''application/json'')]
      in case auth_token of
           None \<Rightarrow> headers
         | Some t \<Rightarrow>
             if t \<noteq> [] then headers @ [(lit ''Authorization'', lit ''Bearer '' @ t)]
             else headers)"

definition formatted_response :: "settings \<Rightarrow> world \<Rightarrow> (str \<times> json) list \<Rightarrow> (str \<times> json) list \<Rightarrow> json" where
  "formatted_response cfg W request_data result =
     JObj
       [(lit ''id'', JStr (lit ''chatcmpl-'' @ take 8 (uuid_hex (uuid4 W)))),
        (lit ''object'', JStr (lit ''chat.completion'')),
        (lit ''created'', JInt (time_time W)),
        (lit ''model'', dict_get request_data (lit ''model'') (JStr (N8N_MODEL_NAME cfg))),
        (lit ''choices'',
           JList
             [JObj
                [(lit ''index'', JInt 0),
                 (lit ''message'',
                    JObj
                      [(lit ''role'', JStr (lit ''assistant'')),
                       (lit ''content'',
                          dict_get result (lit ''content'')
                            (dict_get result (lit ''response'') (JStr (str_of W (JObj result)))))]),
                 (lit ''finish_reason'', JStr (lit ''stop''))]]),
        (lit ''usage'',
           JObj
             [(lit ''prompt_tokens'', JInt 0),
              (lit ''completion_tokens'', JInt 0),
              (lit ''total_tokens'', JInt 0)])]"

definition stream_n8n_response ::
  "settings \<Rightarrow> world \<Rightarrow> str \<Rightarrow> (str \<times> json) list \<Rightarrow> str option \<Rightarrow> run" where
  "stream_n8n_response cfg W webhook_url request_data auth_token =
     (let req = \<lparr>url = webhook_url, headers = build_headers auth_token,
                 json_payload = JObj request_data, ssl = False,
                 total_timeout = N8N_TIMEOUT cfg\<rparr>;
          r0 = \<lparr>sent = [req], body_reads = [], logged = [], yielded = []\<rparr>
      in case post W req of
           Inl e \<Rightarrow> on_exception W e r0
         | Inr response \<Rightarrow>
             if status response \<noteq> 200 then
               (case text_result response of
                  Inl e \<Rightarrow> on_exception W e (r0\<lparr>body_reads := [ReadText]\<rparr>)
                | Inr error_text \<Rightarrow>
                    r0\<lparr>body_reads := [ReadText],
                       logged :=
                         [(ERROR, lit ''n8n webhook error: '' @ str_int (status response) @
                                  lit '' - '' @ error_text)],
                       yielded :=
                         [sse (json_dumps (float_repr W)
                                 (error_payload (lit ''n8n webhook error: '' @ error_text)))]\<rparr>)
             else if truthy (dict_get request_data (lit ''stream'') (JBool False)) then
               (case relay W (content response) of
                  (frames, x) \<Rightarrow>
                    (let r1 = r0\<lparr>body_reads := [ReadContent], yielded := frames\<rparr>
                     in case (case x of Some e \<Rightarrow> Some e | None \<Rightarrow> content_exn response) of
                          Some e \<Rightarrow> on_exception W e r1
                        | None \<Rightarrow> r1))
             else
               (case json_result response of
                  Inl e \<Rightarrow> on_exception W e (r0\<lparr>body_reads := [ReadJson]\<rparr>)
                | Inr result \<Rightarrow>
                    (case result of
                       JObj d \<Rightarrow>
                         r0\<lparr>body_reads := [ReadJson],
                            yielded :=
                              [sse (json_dumps (float_repr W)
                                      (formatted_response cfg W request_data d)),
                               DONE]\<rparr>
                     | _ \<Rightarrow>
                         on_exception W (OtherException (attribute_error result))
                           (r0\<lparr>body_reads := [ReadJson]\<rparr>))))"

section \<open>The request router\<close>

text \<open>
  Modelled from the spec: the class \<^verbatim>\<open>UserModel\<close> of \<^verbatim>\<open>open_webui.models.users\<close> is not
  among the sources. The spec gives the verified caller an id, a display name, an email
  and a role, the four attributes that \<^verbatim>\<open>chat_completions\<close> reads.
\<close>

record UserModel =
  id' :: str
  name :: str
  email :: str
  role :: str

record N8NChatCompletionRequest =
  model :: str
  messages :: "json list"
  stream :: bool
  temperature :: "64 word option"
  max_tokens :: "int option"
  top_p :: "64 word option"
  frequency_penalty :: "64 word option"
  presence_penalty :: "64 word option"
  user :: "str option"

datatype HTTPException = HTTPException int str

record StreamingResponse =
  body_iterator :: run
  media_type :: str
  response_headers :: "(str \<times> str) list"

definition opt_float :: "64 word option \<Rightarrow> json" where
  "opt_float x = (case x of None \<Rightarrow> JNull | Some f \<Rightarrow> JFloat f)"

definition opt_int :: "int option \<Rightarrow> json" where
  "opt_int x = (case x of None \<Rightarrow> JNull | Some i \<Rightarrow> JInt i)"

definition n8n_request :: "N8NChatCompletionRequest \<Rightarrow> UserModel \<Rightarrow> (str \<times> json) list" where
  \<comment> \<open>the dict \<^verbatim>\<open>n8n_request\<close> that \<^verbatim>\<open>chat_completions\<close> builds\<close>
  "n8n_request body u =
     [(lit ''model'', JStr (model body)),
      (lit ''messages'', JList (messages body)),
      (lit ''stream'', JBool (stream body)),
      (lit ''temperature'', opt_float (temperature body)),
      (lit ''max_tokens'', opt_int (max_tokens body)),
      (lit ''top_p'', opt_float (top_p body)),
      (lit ''frequency_penalty'', opt_float (frequency_penalty body)),
      (lit ''presence_penalty'', opt_float (presence_penalty body)),
      (lit ''user'',
         JObj
           [(lit ''id'', JStr (id' u)),
            (lit ''name'', JStr (name u)),
            (lit ''email'', JStr (email u)),
            (lit ''role'', JStr (role u))])]"

definition chat_completions ::
  "settings \<Rightarrow> world \<Rightarrow> N8NChatCompletionRequest \<Rightarrow> UserModel \<Rightarrow>
   (level \<times> str) list \<times> (HTTPException + StreamingResponse)" where
  \<comment> \<open>the lines the handler logs itself, and what it raises or returns\<close>
  "chat_completions cfg W body u =
     (let l = [(INFO, lit ''n8n chat completion request from user: '' @ email u)];
          webhook_url = N8N_WEBHOOK_URL cfg
      in if webhook_url = [] \<or> webhook_url = lit ''YOUR_N8N_WEBHOOK_URL'' then
           (l, Inl (HTTPException 500
                  (lit ''n8n webhook URL not configured. Please set the N8N_WEBHOOK_URL.'')))
         else
           (l, Inr \<lparr>body_iterator =
                      stream_n8n_response cfg W webhook_url (n8n_request body u)
                        (if N8N_WEBHOOK_AUTH_TOKEN cfg \<noteq> lit ''YOUR_N8N_WEBHOOK_AUTH_TOKEN''
                         then Some (N8N_WEBHOOK_AUTH_TOKEN cfg) else None),
                    media_type = lit ''text/event-stream'',
                    response_headers =
                      [(lit ''Cache-Control'', lit ''no-cache''),
                       (lit ''Connection'', lit ''keep-alive''),
                       (lit ''X-Accel-Buffering'', lit ''no'')]\<rparr>))"

definition get_status :: "settings \<Rightarrow> (str \<times> json) list" where
  "get_status cfg =
     (let configured = (N8N_WEBHOOK_URL cfg \<noteq> lit ''YOUR_N8N_WEBHOOK_URL'')
      in [(lit ''status'', JStr (if configured then lit ''ready'' else lit ''not_configured'')),
          (lit ''configured'', JBool configured),
          (lit ''model'', JStr (lit ''n8n-agent'')),
          (lit ''description'', JStr (lit ''n8n Webhook Integration for Open WebUI''))])"

text \<open>What a client and an operator can observe of one call of \<^verbatim>\<open>chat_completions\<close>.\<close>

definition requests_of :: "(level \<times> str) list \<times> (HTTPException + StreamingResponse) \<Rightarrow> http_request list" where
  "requests_of h = (case snd h of Inl _ \<Rightarrow> [] | Inr s \<Rightarrow> sent (body_iterator s))"

definition log_of :: "(level \<times> str) list \<times> (HTTPException + StreamingResponse) \<Rightarrow> (level \<times> str) list" where
  "log_of h = fst h @ (case snd h of Inl _ \<Rightarrow> [] | Inr s \<Rightarrow> logged (body_iterator s))"

section \<open>Notions used to state the properties\<close>

definition the_request :: "settings \<Rightarrow> str \<Rightarrow> (str \<times> json) list \<Rightarrow> str option \<Rightarrow> http_request" where
  \<comment> \<open>the request that \<^verbatim>\<open>stream_n8n_response\<close> posts\<close>
  "the_request cfg webhook_url request_data auth_token =
     \<lparr>url = webhook_url, headers = build_headers auth_token,
      json_payload = JObj request_data, ssl = False, total_timeout = N8N_TIMEOUT cfg\<rparr>"

definition stream_flag :: "(str \<times> json) list \<Rightarrow> bool" where
  \<comment> \<open>the test \<^verbatim>\<open>if request_data.get("stream", False):\<close>\<close>
  "stream_flag request_data = truthy (dict_get request_data (lit ''stream'') (JBool False))"

definition error_message :: "exn \<Rightarrow> str" where
  \<comment> \<open>the message of the error frame for an exception, by its classification\<close>
  "error_message e =
     (case e of
        ClientError m \<Rightarrow> lit ''Connection error: '' @ m
      | OtherException m \<Rightarrow> lit ''Unexpected error: '' @ m)"

definition is_error_frame :: "world \<Rightarrow> str \<Rightarrow> bool" where
  \<comment> \<open>a frame whose payload is a JSON object with the single key \<^verbatim>\<open>error\<close>\<close>
  "is_error_frame W f \<longleftrightarrow> (\<exists>m. f = sse (json_dumps (float_repr W) (error_payload m)))"

definition properly_terminated :: "world \<Rightarrow> str list \<Rightarrow> bool" where
  \<comment> \<open>the sequence of frames ends with the sentinel or with an error frame\<close>
  "properly_terminated W fs \<longleftrightarrow> fs \<noteq> [] \<and> (last fs = DONE \<or> is_error_frame W (last fs))"

definition frames_of_chunk :: "str \<Rightarrow> str list" where
  \<comment> \<open>the frames for one decoded chunk, whitespace stripped at both ends\<close>
  "frames_of_chunk t =
     (let s = strip t
      in if startswith s (lit ''data: '') then [s @ nl @ nl]
         else if s \<noteq> [] then [lit ''data: '' @ s @ nl @ nl]
         else [])"

definition frames_of_chunk_trailing :: "str \<Rightarrow> str list" where
  \<comment> \<open>the frames for one decoded chunk when only trailing whitespace is stripped\<close>
  "frames_of_chunk_trailing t =
     (let s = rstrip t
      in if startswith s (lit ''data: '') then [s @ nl @ nl]
         else if s \<noteq> [] then [lit ''data: '' @ s @ nl @ nl]
         else [])"

subsection \<open>A configuration, a caller, a request and some upstreams to run the router on\<close>

definition example_settings :: settings where
  "example_settings =
     \<lparr>N8N_WEBHOOK_URL = lit ''http://n8n.local/webhook/chat'',
      N8N_WEBHOOK_AUTH_TOKEN = lit ''s3cret'',
      N8N_MODEL_NAME = lit ''n8n-agent'',
      N8N_MODEL_DESCRIPTION = lit ''n8n Webhook Agent for AI interactions'',
      N8N_TIMEOUT = 120,
      N8N_MAX_RETRIES = 3,
      N8N_DEFAULT_TEMPERATURE = 0x3FE6666666666666,
      N8N_DEFAULT_MAX_TOKENS = 2048,
      N8N_DEFAULT_TOP_P = 0x3FF0000000000000,
      N8N_DEBUG = False\<rparr>"

definition example_user :: UserModel where
  "example_user =
     \<lparr>id' = lit ''u1'', name = lit ''Ada'', email = lit ''ada@example.org'', role = lit ''user''\<rparr>"

definition example_body :: "bool \<Rightarrow> N8NChatCompletionRequest" where
  \<comment> \<open>a request body with the given stream flag\<close>
  "example_body s =
     \<lparr>model = lit ''n8n-agent'',
      messages = [JObj [(lit ''role'', JStr (lit ''user'')), (lit ''content'', JStr (lit ''Hello''))]],
      stream = s,
      temperature = None, max_tokens = Some 2048, top_p = None,
      frequency_penalty = None, presence_penalty = None,
      user = Some (lit ''someone-else'')\<rparr>"

definition example_response :: response where
  \<comment> \<open>status 200; the body as each way of reading it gives it\<close>
  "example_response =
     \<lparr>status = 200,
      text_result = Inr (lit ''{}''),
      json_result = Inr (JObj [(lit ''content'', JStr (lit ''hi''))]),
      content = [''  hello'' @ [CHR 0x0A]],
      content_exn = None\<rparr>"

definition example_world :: "(exn + response) \<Rightarrow> world" where
  \<comment> \<open>a world whose upstream gives the same outcome to every request\<close>
  "example_world outcome =
     \<lparr>post = (\<lambda>_. outcome),
      uuid4 = 0x1a2b3c4d5e6f40819293a4b5c6d7e8f9,
      time_time = 1700000000,
      float_repr = (\<lambda>_. lit ''0.0''),
      str_of = (\<lambda>_. lit ''{}''),
      decode_error = (\<lambda>_. lit ''invalid start byte'')\<rparr>"

definition example_lines :: "bytes list" where
  \<comment> \<open>four lines of a streamed body: a framed chunk, a bare one, a blank one, the sentinel\<close>
  \<open>example_lines =
     [''data: {"content": "Hel"}'' @ [CHR 0x0A],
      ''  lo '' @ [CHR 0x0D, CHR 0x0A],
      [CHR 0x0A],
      ''data: [DONE]'' @ [CHR 0x0A]]\<close>

section \<open>Auxiliary facts\<close>

lemma lit_simps: "lit [] = []" "lit (c # cs) = of_char c # lit cs"
  by (simp_all add: lit_def)

lemma startswith_prefix: "startswith s p \<longleftrightarrow> prefix p s"
  unfolding startswith_def by (metis append_take_drop_id prefix_def append_eq_conv_conj)

lemma endswith_suffix: "endswith s p \<longleftrightarrow> suffix p s"
  unfolding endswith_def by (metis suffix_def suffix_drop suffix_length_le append_eq_conv_conj length_append add_diff_cancel_right')

lemma sent_on_exception [simp]: "sent (on_exception W e r) = sent r"
  by (cases e) (simp_all add: on_exception_def)

lemma body_reads_on_exception [simp]: "body_reads (on_exception W e r) = body_reads r"
  by (cases e) (simp_all add: on_exception_def)

lemma yielded_on_exception:
  "yielded (on_exception W e r) =
     yielded r @ [sse (json_dumps (float_repr W) (error_payload (error_message e)))]"
  by (cases e) (simp_all add: on_exception_def error_message_def)

lemma logged_on_exception:
  "logged (on_exception W e r) =
     logged r @ [(ERROR, (case e of ClientError m \<Rightarrow> lit ''n8n webhook connection error: '' @ m
                          | OtherException m \<Rightarrow> lit ''n8n webhook unexpected error: '' @ m))]"
  by (cases e) (simp_all add: on_exception_def)

text \<open>The generator, one upstream outcome at a time.\<close>

lemma stream_post_raises:
  assumes "post W (the_request cfg u d t) = Inl e"
  shows "stream_n8n_response cfg W u d t =
           on_exception W e \<lparr>sent = [the_request cfg u d t], body_reads = [], logged = [], yielded = []\<rparr>"
  using assms by (simp add: stream_n8n_response_def the_request_def Let_def)

lemma stream_http_error:
  assumes "post W (the_request cfg u d t) = Inr resp" "status resp \<noteq> 200"
  shows "stream_n8n_response cfg W u d t =
     (case text_result resp of
        Inl e \<Rightarrow> on_exception W e \<lparr>sent = [the_request cfg u d t], body_reads = [ReadText], logged = [], yielded = []\<rparr>
      | Inr error_text \<Rightarrow>
          \<lparr>sent = [the_request cfg u d t], body_reads = [ReadText],
           logged = [(ERROR, lit ''n8n webhook error: '' @ str_int (status resp) @ lit '' - '' @ error_text)],
           yielded = [sse (json_dumps (float_repr W) (error_payload (lit ''n8n webhook error: '' @ error_text)))]\<rparr>)"
  using assms by (simp add: stream_n8n_response_def the_request_def Let_def split: sum.split)

lemma stream_relay:
  assumes "post W (the_request cfg u d t) = Inr resp" "status resp = 200" "stream_flag d"
    "relay W (content resp) = (frames, x)"
  shows "stream_n8n_response cfg W u d t =
     (case (case x of Some e \<Rightarrow> Some e | None \<Rightarrow> content_exn resp) of
        Some e \<Rightarrow> on_exception W e \<lparr>sent = [the_request cfg u d t], body_reads = [ReadContent], logged = [], yielded = frames\<rparr>
      | None \<Rightarrow> \<lparr>sent = [the_request cfg u d t], body_reads = [ReadContent], logged = [], yielded = frames\<rparr>)"
  using assms by (simp add: stream_n8n_response_def the_request_def stream_flag_def Let_def split: option.split)

lemma stream_buffered:
  assumes "post W (the_request cfg u d t) = Inr resp" "status resp = 200" "\<not> stream_flag d"
  shows "stream_n8n_response cfg W u d t =
     (case json_result resp of
        Inl e \<Rightarrow> on_exception W e \<lparr>sent = [the_request cfg u d t], body_reads = [ReadJson], logged = [], yielded = []\<rparr>
      | Inr result \<Rightarrow>
          (case result of
             JObj r \<Rightarrow> \<lparr>sent = [the_request cfg u d t], body_reads = [ReadJson], logged = [],
                        yielded = [sse (json_dumps (float_repr W) (formatted_response cfg W d r)), DONE]\<rparr>
           | _ \<Rightarrow> on_exception W (OtherException (attribute_error result))
                   \<lparr>sent = [the_request cfg u d t], body_reads = [ReadJson], logged = [], yielded = []\<rparr>))"
  using assms by (simp add: stream_n8n_response_def the_request_def stream_flag_def Let_def split: sum.split json.split)

lemma sent_stream_n8n_response:
  "sent (stream_n8n_response cfg W u d t) = [the_request cfg u d t]"
  by (simp add: stream_n8n_response_def the_request_def Let_def
      split: sum.split prod.split option.split json.split)

lemma requests_of_chat_completions:
  "requests_of (chat_completions cfg W body usr) =
     (if N8N_WEBHOOK_URL cfg = [] \<or> N8N_WEBHOOK_URL cfg = lit ''YOUR_N8N_WEBHOOK_URL'' then []
      else [the_request cfg (N8N_WEBHOOK_URL cfg) (n8n_request body usr)
              (if N8N_WEBHOOK_AUTH_TOKEN cfg \<noteq> lit ''YOUR_N8N_WEBHOOK_AUTH_TOKEN''
               then Some (N8N_WEBHOOK_AUTH_TOKEN cfg) else None)])"
  by (simp add: requests_of_def chat_completions_def Let_def sent_stream_n8n_response)

lemma error_frame_not_DONE: "sse (json_dumps fr (error_payload m)) \<noteq> DONE"
  by (simp add: sse_def DONE_def error_payload_def lit_simps)

lemma sse_framed: "startswith (sse x) (lit ''data: '') \<and> endswith (sse x) (nl @ nl)"
  by (simp add: startswith_prefix endswith_suffix sse_def suffix_def)

lemma DONE_framed: "startswith DONE (lit ''data: '') \<and> endswith DONE (nl @ nl)"
  by (simp add: startswith_prefix endswith_suffix DONE_def lit_simps suffix_def)

lemma example_settings_simps [simp]:
  "N8N_WEBHOOK_URL example_settings = lit ''http://n8n.local/webhook/chat''"
  "N8N_WEBHOOK_AUTH_TOKEN example_settings = lit ''s3cret''"
  "N8N_MODEL_NAME example_settings = lit ''n8n-agent''"
  "N8N_TIMEOUT example_settings = 120"
  by (simp_all add: example_settings_def)

lemma example_world_simps [simp]:
  "post (example_world outcome) req = outcome"
  "time_time (example_world outcome) = 1700000000"
  "float_repr (example_world outcome) = (\<lambda>_. lit ''0.0'')"
  "str_of (example_world outcome) = (\<lambda>_. lit ''{}'')"
  "decode_error (example_world outcome) = (\<lambda>_. lit ''invalid start byte'')"
  by (simp_all add: example_world_def)


lemma example_response_simps [simp]:
  "status example_response = 200"
  "text_result example_response = Inr (lit ''{}'')"
  "json_result example_response = Inr (JObj [(lit ''content'', JStr (lit ''hi''))])"
  "content example_response = [''  hello'' @ [CHR 0x0A]]"
  "content_exn example_response = None"
  by (simp_all add: example_response_def)

lemma example_stream_flag [simp]:
  "stream_flag (n8n_request (example_body s) example_user) = s"
  by (simp add: stream_flag_def n8n_request_def example_body_def dict_get_def lit_simps)

lemma relay_framed:
  "relay W ls = (frames, x) \<Longrightarrow> f \<in> set frames \<Longrightarrow>
     startswith f (lit ''data: '') \<and> endswith f (nl @ nl)"
proof (induction ls arbitrary: frames x)
  case Nil
  then show ?case by simp
next
  case (Cons line rest)
  show ?case
  proof (cases "line = []")
    case True
    with Cons show ?thesis by simp
  next
    case False
    show ?thesis
    proof (cases "utf8_decode line")
      case None
      with False Cons.prems show ?thesis by simp
    next
      case (Some t)
      obtain fs y where rest: "relay W rest = (fs, y)" by (cases "relay W rest")
      let ?out = "if startswith (strip t) (lit ''data: '') then [strip t @ nl @ nl]
                  else if strip t \<noteq> [] then [sse (strip t)] else []"
      from False Some rest Cons.prems(1) have frames: "frames = ?out @ fs"
        by (simp add: Let_def)
      have out: "startswith g (lit ''data: '') \<and> endswith g (nl @ nl)" if "g \<in> set ?out" for g
        using that sse_framed [of "strip t"]
        by (auto simp add: startswith_prefix endswith_suffix suffix_def split: if_splits)
      from Cons.prems(2) frames have "f \<in> set ?out \<or> f \<in> set fs" by auto
      then show ?thesis using out Cons.IH [OF rest] by blast
    qed
  qed
qed

lemma yielded_framed:
  assumes "f \<in> set (yielded (stream_n8n_response cfg W u d t))"
  shows "startswith f (lit ''data: '') \<and> endswith f (nl @ nl)"
proof (cases "post W (the_request cfg u d t)")
  case (Inl e)
  from stream_post_raises [OF Inl] assms show ?thesis
    using sse_framed by (simp add: yielded_on_exception)
next
  case (Inr resp)
  show ?thesis
  proof (cases "status resp = 200")
    case False
    from stream_http_error [OF Inr False] assms show ?thesis
      using sse_framed by (auto simp add: yielded_on_exception split: sum.splits)
  next
    case ok: True
    show ?thesis
    proof (cases "stream_flag d")
      case True
      obtain frames x where r: "relay W (content resp) = (frames, x)"
        by (cases "relay W (content resp)")
      from stream_relay [OF Inr ok True r] assms
      have "f \<in> set frames \<or> (\<exists>p. f = sse p)"
        by (auto simp add: yielded_on_exception split: option.splits)
      then show ?thesis using relay_framed [OF r] sse_framed by blast
    next
      case False
      from stream_buffered [OF Inr ok False] assms show ?thesis
        using sse_framed DONE_framed
        by (auto simp add: yielded_on_exception split: sum.splits json.splits)
    qed
  qed
qed

lemma frames_of_chunk_empty: "frames_of_chunk [] = []"
  by (simp add: frames_of_chunk_def strip_def lstrip_def rstrip_def startswith_def lit_simps)

lemma relay_decoded_prefix:
  "map utf8_decode pre = map Some ts \<Longrightarrow>
     relay W (pre @ rest) =
       (concat (map frames_of_chunk ts) @ fst (relay W rest), snd (relay W rest))"
proof (induction pre arbitrary: ts)
  case Nil
  then show ?case by simp
next
  case (Cons line pre)
  then obtain t ts' where ts: "ts = t # ts'" and t: "utf8_decode line = Some t"
    and rest: "map utf8_decode pre = map Some ts'"
    by (cases ts) auto
  note IH = Cons.IH [OF rest]
  show ?case
  proof (cases "line = []")
    case True
    with t have "t = []" by simp
    with True IH ts show ?thesis by (simp add: frames_of_chunk_empty)
  next
    case False
    with t IH ts show ?thesis
      by (simp add: Let_def frames_of_chunk_def sse_def)
  qed
qed

lemma hex_digits_numeral:
  "hex_digits (numeral k) n = hex_digits (pred_numeral k) (n div 16) @ [digit_char (n mod 16)]"
  by (simp only: numeral_eq_Suc [of k] hex_digits.simps)

lemma length_hex_digits: "length (hex_digits w n) = w"
  by (induction w n rule: hex_digits.induct) simp_all

lemma digit_char_hex: "n < 16 \<Longrightarrow> digit_char n \<in> set (lit ''0123456789abcdef'')"
  unfolding digit_char_def lit_simps by (simp; presburger)

lemma set_hex_digits: "set (hex_digits w n) \<subseteq> set (lit ''0123456789abcdef'')"
  by (induction w n rule: hex_digits.induct) (simp_all add: digit_char_hex)

lemma uuid_hex_prefix:
  "length (take 8 (uuid_hex u)) = 8 \<and> set (take 8 (uuid_hex u)) \<subseteq> set (lit ''0123456789abcdef'')"
  using set_hex_digits [of 32 "unat u"] set_take_subset [of 8 "uuid_hex u"]
  by (auto simp add: uuid_hex_def length_hex_digits)

lemma str_int_eval:
  "str_int 0 = lit ''0''" "str_int 401 = lit ''401''" "str_int 1700000000 = lit ''1700000000''"
  by (simp_all add: str_int_def digits.simps digit_char_def lit_simps)

lemma relay_hello:
  "relay W (content example_response) = ([lit ''data: hello'' @ nl @ nl], None)"
  by code_simp

lemma example_lines_decoded:
  \<open>map utf8_decode example_lines =
      map Some [lit ''data: {"content": "Hel"}'' @ nl, lit ''  lo '' @ [13, 10], nl,
                lit ''data: [DONE]'' @ nl]\<close>
  by code_simp

lemma example_lines_frames:
  \<open>concat (map frames_of_chunk
      [lit ''data: {"content": "Hel"}'' @ nl, lit ''  lo '' @ [13, 10], nl,
       lit ''data: [DONE]'' @ nl]) =
     [lit ''data: {"content": "Hel"}'' @ nl @ nl, lit ''data: lo'' @ nl @ nl, DONE]\<close>
  by code_simp

lemma relay_unterminated:
  \<open>relay W [''data: {"content": "Hel"}'' @ [CHR 0x0A]] =
     ([lit ''data: {"content": "Hel"}'' @ nl @ nl], None)\<close>
  by code_simp

lemma chunk_frame_not_terminal:
  \<open>lit ''data: {"content": "Hel"}'' @ nl @ nl \<noteq> DONE \<and>
   \<not> is_error_frame W (lit ''data: {"content": "Hel"}'' @ nl @ nl)\<close>
  by (simp add: is_error_frame_def DONE_def sse_def error_payload_def join_def
      encode_basestring_ascii_def escape_char_def lit_simps)

lemma error_frame_text:
  \<open>sse (json_dumps fr (JObj [(lit ''error'', JStr m)])) =
     lit ''data: {"error": "'' @ concat (map escape_char m) @ lit ''"}'' @ nl @ nl\<close>
  by (simp add: sse_def join_def encode_basestring_ascii_def escape_char_def lit_simps)

lemma logged_stream_independent:
  assumes "post W (the_request cfg u d t') = post W (the_request cfg u d t)"
  shows "logged (stream_n8n_response cfg W u d t') = logged (stream_n8n_response cfg W u d t)"
proof (cases "post W (the_request cfg u d t)")
  case (Inl e)
  with assms have "post W (the_request cfg u d t') = Inl e" by simp
  from stream_post_raises [OF this] stream_post_raises [OF Inl] show ?thesis
    by (simp add: logged_on_exception)
next
  case (Inr resp)
  with assms have Inr': "post W (the_request cfg u d t') = Inr resp" by simp
  show ?thesis
  proof (cases "status resp = 200")
    case False
    from stream_http_error [OF Inr' False] stream_http_error [OF Inr False] show ?thesis
      by (simp add: logged_on_exception split: sum.split)
  next
    case ok: True
    show ?thesis
    proof (cases "stream_flag d")
      case True
      obtain frames x where r: "relay W (content resp) = (frames, x)"
        by (cases "relay W (content resp)")
      from stream_relay [OF Inr' ok True r] stream_relay [OF Inr ok True r] show ?thesis
        by (simp add: logged_on_exception split: option.split)
    next
      case False
      from stream_buffered [OF Inr' ok False] stream_buffered [OF Inr ok False] show ?thesis
        by (simp add: logged_on_exception split: sum.split json.split)
    qed
  qed
qed

lemma the_request_token_setting:
  "the_request (cfg\<lparr>N8N_WEBHOOK_AUTH_TOKEN := x\<rparr>) u d t = the_request cfg u d t"
  by (simp add: the_request_def)

lemma formatted_response_token_setting:
  "formatted_response (cfg\<lparr>N8N_WEBHOOK_AUTH_TOKEN := x\<rparr>) W d r = formatted_response cfg W d r"
  by (simp add: formatted_response_def)

lemma stream_token_setting:
  "stream_n8n_response (cfg\<lparr>N8N_WEBHOOK_AUTH_TOKEN := x\<rparr>) W u d t =
     stream_n8n_response cfg W u d t"
  unfolding stream_n8n_response_def formatted_response_token_setting by simp

lemma log_of_chat_completions:
  assumes "N8N_WEBHOOK_URL cfg \<noteq> []" and "N8N_WEBHOOK_URL cfg \<noteq> lit ''YOUR_N8N_WEBHOOK_URL''"
  shows "log_of (chat_completions cfg W body usr) =
     (INFO, lit ''n8n chat completion request from user: '' @ email usr) #
     logged (stream_n8n_response cfg W (N8N_WEBHOOK_URL cfg) (n8n_request body usr)
       (if N8N_WEBHOOK_AUTH_TOKEN cfg \<noteq> lit ''YOUR_N8N_WEBHOOK_AUTH_TOKEN''
        then Some (N8N_WEBHOOK_AUTH_TOKEN cfg) else None))"
  using assms by (simp add: log_of_def chat_completions_def Let_def)

section \<open>The outbound envelope\<close>

text \<open>
  Claim C9. The \<^verbatim>\<open>user\<close> field of the request body is never forwarded upstream. Two
  requests that differ only in that field make \<^verbatim>\<open>chat_completions\<close> post the same
  requests; the JSON posted is the dict \<^verbatim>\<open>n8n_request\<close>, and its \<^verbatim>\<open>user\<close> key holds the
  object built from the verified caller: id, name, email and role.
\<close>

theorem caller_user_tag_never_forwarded:
  "requests_of (chat_completions cfg W (body\<lparr>user := tag\<rparr>) usr) =
     requests_of (chat_completions cfg W (body\<lparr>user := tag'\<rparr>) usr) \<and>
   map json_payload (requests_of (chat_completions cfg W body usr)) =
     (if N8N_WEBHOOK_URL cfg = [] \<or> N8N_WEBHOOK_URL cfg = lit ''YOUR_N8N_WEBHOOK_URL'' then []
      else [JObj (n8n_request body usr)]) \<and>
   dict_get (n8n_request body usr) (lit ''user'') JNull =
     JObj [(lit ''id'', JStr (id' usr)), (lit ''name'', JStr (name usr)),
           (lit ''email'', JStr (email usr)), (lit ''role'', JStr (role usr))]"
proof -
  have same: "n8n_request (body\<lparr>user := t\<rparr>) usr = n8n_request body usr" for t
    by (simp add: n8n_request_def)
  have "dict_get (n8n_request body usr) (lit ''user'') JNull =
     JObj [(lit ''id'', JStr (id' usr)), (lit ''name'', JStr (name usr)),
           (lit ''email'', JStr (email usr)), (lit ''role'', JStr (role usr))]"
    by (simp add: n8n_request_def dict_get_def lit_simps)
  then show ?thesis
    by (simp add: requests_of_chat_completions same the_request_def)
qed

theorem caller_user_tag_never_forwarded_witness:
  "requests_of (chat_completions example_settings (example_world (Inr example_response))
       ((example_body False)\<lparr>user := Some (lit ''mallory'')\<rparr>) example_user) =
   requests_of (chat_completions example_settings (example_world (Inr example_response))
       ((example_body False)\<lparr>user := None\<rparr>) example_user) \<and>
   map json_payload (requests_of (chat_completions example_settings
       (example_world (Inr example_response)) (example_body False) example_user)) =
     [JObj (n8n_request (example_body False) example_user)] \<and>
   dict_get (n8n_request (example_body False) example_user) (lit ''user'') JNull =
     JObj [(lit ''id'', JStr (lit ''u1'')), (lit ''name'', JStr (lit ''Ada'')),
           (lit ''email'', JStr (lit ''ada@example.org'')), (lit ''role'', JStr (lit ''user''))]"
  using caller_user_tag_never_forwarded [where cfg = example_settings
      and W = "example_world (Inr example_response)" and body = "example_body False"
      and tag = "Some (lit ''mallory'')" and usr = example_user and tag' = None]
  by (simp add: example_user_def lit_simps)

text \<open>
  Claim C10. When the configured auth token is the empty string or the placeholder
  \<^verbatim>\<open>YOUR_N8N_WEBHOOK_AUTH_TOKEN\<close>, the request posted upstream (one is posted once the
  webhook URL is configured) carries the \<^verbatim>\<open>Content-Type\<close> header alone: there is no
  \<^verbatim>\<open>Authorization\<close> header.
\<close>

theorem no_authorization_header_without_token:
  assumes "N8N_WEBHOOK_AUTH_TOKEN cfg = [] \<or>
           N8N_WEBHOOK_AUTH_TOKEN cfg = lit ''YOUR_N8N_WEBHOOK_AUTH_TOKEN''"
      and "N8N_WEBHOOK_URL cfg \<noteq> []" and "N8N_WEBHOOK_URL cfg \<noteq> lit ''YOUR_N8N_WEBHOOK_URL''"
  shows "map headers (requests_of (chat_completions cfg W body usr)) =
           [[(lit ''Content-Type'', lit ''application/json'')]]"
  using assms
  by (auto simp add: requests_of_chat_completions the_request_def build_headers_def)

theorem no_authorization_header_without_token_witness:
  "map headers (requests_of (chat_completions
      (example_settings\<lparr>N8N_WEBHOOK_AUTH_TOKEN := lit ''YOUR_N8N_WEBHOOK_AUTH_TOKEN''\<rparr>)
      (example_world (Inr example_response)) (example_body False) example_user)) =
     [[(lit ''Content-Type'', lit ''application/json'')]] \<and>
   map headers (requests_of (chat_completions
      (example_settings\<lparr>N8N_WEBHOOK_AUTH_TOKEN := []\<rparr>)
      (example_world (Inr example_response)) (example_body False) example_user)) =
     [[(lit ''Content-Type'', lit ''application/json'')]]"
  using no_authorization_header_without_token
      [where cfg = "example_settings\<lparr>N8N_WEBHOOK_AUTH_TOKEN := lit ''YOUR_N8N_WEBHOOK_AUTH_TOKEN''\<rparr>"
         and W = "example_world (Inr example_response)" and body = "example_body False"
         and usr = example_user]
    no_authorization_header_without_token
      [where cfg = "example_settings\<lparr>N8N_WEBHOOK_AUTH_TOKEN := []\<rparr>"
         and W = "example_world (Inr example_response)" and body = "example_body False"
         and usr = example_user]
  by (simp add: example_settings_def lit_simps)

section \<open>Configuration readiness\<close>

text \<open>
  Claim C6. With an empty webhook URL the two endpoints disagree: \<^verbatim>\<open>chat_completions\<close>
  refuses with HTTP 500 and posts nothing, as the claim says, while \<^verbatim>\<open>get_status\<close>, which
  compares the URL with the placeholder only, answers \<^verbatim>\<open>configured: true\<close> and
  \<^verbatim>\<open>status: "ready"\<close>.
\<close>

theorem status_endpoint_reports_empty_url_as_ready:
  "dict_get (get_status (cfg\<lparr>N8N_WEBHOOK_URL := []\<rparr>)) (lit ''configured'') JNull = JBool True \<and>
   dict_get (get_status (cfg\<lparr>N8N_WEBHOOK_URL := []\<rparr>)) (lit ''status'') JNull = JStr (lit ''ready'') \<and>
   snd (chat_completions (cfg\<lparr>N8N_WEBHOOK_URL := []\<rparr>) W body usr) =
     Inl (HTTPException 500
            (lit ''n8n webhook URL not configured. Please set the N8N_WEBHOOK_URL.'')) \<and>
   requests_of (chat_completions (cfg\<lparr>N8N_WEBHOOK_URL := []\<rparr>) W body usr) = []"
  by (simp add: get_status_def dict_get_def chat_completions_def requests_of_def lit_simps)

section \<open>Upstream HTTP errors\<close>

text \<open>
  Claim C4. When the upstream answers with a status outside 200..299 and its body is read
  as \<open>error_text\<close>, the generator yields exactly one frame, whose payload is the JSON object
  \<^verbatim>\<open>{"error": "n8n webhook error: <error_text>"}\<close>, and no \<^verbatim>\<open>[DONE]\<close> frame.
\<close>

theorem http_error_yields_one_error_frame:
  assumes "post W (the_request cfg webhook_url request_data auth_token) = Inr resp"
      and "\<not> (200 \<le> status resp \<and> status resp < 300)"
      and "text_result resp = Inr error_text"
  shows "yielded (stream_n8n_response cfg W webhook_url request_data auth_token) =
           [sse (json_dumps (float_repr W)
                   (JObj [(lit ''error'', JStr (lit ''n8n webhook error: '' @ error_text))]))] \<and>
         DONE \<notin> set (yielded (stream_n8n_response cfg W webhook_url request_data auth_token))"
proof -
  from assms(2) have "status resp \<noteq> 200" by arith
  from stream_http_error [OF assms(1) this] assms(3)
  have "yielded (stream_n8n_response cfg W webhook_url request_data auth_token) =
          [sse (json_dumps (float_repr W) (error_payload (lit ''n8n webhook error: '' @ error_text)))]"
    by simp
  then show ?thesis
    using error_frame_not_DONE [of "float_repr W" "lit ''n8n webhook error: '' @ error_text"]
    by (simp add: error_payload_def)
qed

theorem http_error_yields_one_error_frame_witness:
  \<open>yielded (stream_n8n_response example_settings
      (example_world (Inr (example_response\<lparr>status := 503, text_result := Inr (lit ''overloaded'')\<rparr>)))
      (lit ''http://n8n.local/webhook/chat'') (n8n_request (example_body False) example_user) None) =
     [lit ''data: {"error": "n8n webhook error: overloaded"}'' @ nl @ nl]\<close>
  using http_error_yields_one_error_frame [where
      W = "example_world (Inr (example_response\<lparr>status := 503, text_result := Inr (lit ''overloaded'')\<rparr>))"
      and cfg = example_settings and webhook_url = "lit ''http://n8n.local/webhook/chat''"
      and request_data = "n8n_request (example_body False) example_user" and auth_token = None
      and resp = "example_response\<lparr>status := 503, text_result := Inr (lit ''overloaded'')\<rparr>"
      and error_text = "lit ''overloaded''"]
  by (simp add: sse_def lit_simps join_def encode_basestring_ascii_def escape_char_def)

section \<open>Which statuses count as success\<close>

text \<open>
  Claim C5, as amended. The translator takes the success path for the status 200 alone: then
  it reads the body as a stream of lines and relays them when the envelope's stream flag is
  true, and reads it as JSON and synthesizes the completion, followed by the sentinel, when
  the flag is false. For every other status, the other 2xx statuses included, it reads the
  body as text and yields the error frame made of it.
\<close>

theorem only_status_200_takes_success_path:
  assumes "post W (the_request cfg webhook_url request_data auth_token) = Inr resp"
  shows "body_reads (stream_n8n_response cfg W webhook_url request_data auth_token) =
           [if status resp \<noteq> 200 then ReadText
            else if stream_flag request_data then ReadContent
            else ReadJson] \<and>
         (status resp \<noteq> 200 \<and> text_result resp = Inr error_text \<longrightarrow>
            yielded (stream_n8n_response cfg W webhook_url request_data auth_token) =
              [sse (json_dumps (float_repr W)
                      (JObj [(lit ''error'', JStr (lit ''n8n webhook error: '' @ error_text))]))]) \<and>
         (status resp = 200 \<and> stream_flag request_data \<longrightarrow>
            (\<exists>fs. yielded (stream_n8n_response cfg W webhook_url request_data auth_token) =
                    fst (relay W (content resp)) @ fs)) \<and>
         (status resp = 200 \<and> \<not> stream_flag request_data \<and>
          json_result resp = Inr (JObj result) \<longrightarrow>
            yielded (stream_n8n_response cfg W webhook_url request_data auth_token) =
              [sse (json_dumps (float_repr W) (formatted_response cfg W request_data result)),
               DONE])"
proof (cases "status resp = 200")
  case False
  from stream_http_error [OF assms False] show ?thesis
    using False by (simp add: error_payload_def split: sum.split)
next
  case ok: True
  show ?thesis
  proof (cases "stream_flag request_data")
    case True
    obtain frames x where "relay W (content resp) = (frames, x)"
      by (cases "relay W (content resp)")
    from stream_relay [OF assms ok True this] this show ?thesis
      using ok True by (simp add: yielded_on_exception split: option.split)
  next
    case False
    from stream_buffered [OF assms ok False] show ?thesis
      using ok False by (simp split: sum.split json.split)
  qed
qed

theorem only_status_200_takes_success_path_witness:
  "body_reads (stream_n8n_response example_settings (example_world (Inr example_response))
      (lit ''http://n8n.local/webhook/chat'') (n8n_request (example_body True) example_user) None)
     = [ReadContent] \<and>
   body_reads (stream_n8n_response example_settings (example_world (Inr example_response))
      (lit ''http://n8n.local/webhook/chat'') (n8n_request (example_body False) example_user) None)
     = [ReadJson]"
  using only_status_200_takes_success_path [where W = "example_world (Inr example_response)"
      and cfg = example_settings and webhook_url = "lit ''http://n8n.local/webhook/chat''"
      and request_data = "n8n_request (example_body True) example_user" and auth_token = None
      and resp = example_response]
    only_status_200_takes_success_path [where W = "example_world (Inr example_response)"
      and cfg = example_settings and webhook_url = "lit ''http://n8n.local/webhook/chat''"
      and request_data = "n8n_request (example_body False) example_user" and auth_token = None
      and resp = example_response]
  by (simp add: example_response_def stream_flag_def n8n_request_def example_body_def
      dict_get_def lit_simps)

text \<open>
  Claim C5 as stated fails at the status 201: the body is read as text and the only frame
  is the error frame.
\<close>

theorem status_201_takes_error_path:
  \<open>body_reads (stream_n8n_response example_settings
      (example_world (Inr (example_response\<lparr>status := 201, text_result := Inr (lit ''created'')\<rparr>)))
      (lit ''http://n8n.local/webhook/chat'') (n8n_request (example_body False) example_user) None)
     = [ReadText] \<and>
   yielded (stream_n8n_response example_settings
      (example_world (Inr (example_response\<lparr>status := 201, text_result := Inr (lit ''created'')\<rparr>)))
      (lit ''http://n8n.local/webhook/chat'') (n8n_request (example_body False) example_user) None)
     = [lit ''data: {"error": "n8n webhook error: created"}'' @ nl @ nl]\<close>
proof -
  have "stream_n8n_response example_settings
      (example_world (Inr (example_response\<lparr>status := 201, text_result := Inr (lit ''created'')\<rparr>)))
      (lit ''http://n8n.local/webhook/chat'') (n8n_request (example_body False) example_user) None =
    \<lparr>sent = [the_request example_settings (lit ''http://n8n.local/webhook/chat'')
               (n8n_request (example_body False) example_user) None],
     body_reads = [ReadText],
     logged = [(ERROR, lit ''n8n webhook error: '' @ str_int 201 @ lit '' - '' @ lit ''created'')],
     yielded = [sse (json_dumps (\<lambda>_. lit ''0.0'') (error_payload (lit ''n8n webhook error: '' @ lit ''created'')))]\<rparr>"
    by (subst stream_http_error [where resp = "example_response\<lparr>status := 201, text_result := Inr (lit ''created'')\<rparr>"]) simp_all
  then show ?thesis
    by (simp add: sse_def error_payload_def lit_simps join_def encode_basestring_ascii_def escape_char_def)
qed

section \<open>Streaming replies\<close>

text \<open>
  Claim C3, as amended. In streaming mode every chunk that decodes as UTF-8 is stripped of
  whitespace at both ends (\<^verbatim>\<open>str.strip()\<close>), not only at its end. A stripped chunk that
  starts with \<^verbatim>\<open>data: \<close> is yielded with a blank line appended and no second prefix, any
  other non-empty one as \<^verbatim>\<open>data: <text>\<close> and a blank line, and an empty one yields
  nothing. The frames of the chunks received so far are yielded in order whatever comes
  after them, and nothing else is yielded when the body ends without an exception.
\<close>

theorem streaming_chunks_reframed:
  assumes "post W (the_request cfg webhook_url request_data auth_token) = Inr resp"
      and "status resp = 200" and "stream_flag request_data"
      and "content resp = pre @ rest" and "map utf8_decode pre = map Some ts"
  shows "\<exists>fs. yielded (stream_n8n_response cfg W webhook_url request_data auth_token) =
                concat (map frames_of_chunk ts) @ fs \<and>
              (rest = [] \<and> content_exn resp = None \<longrightarrow> fs = [])"
proof -
  let ?front = "concat (map frames_of_chunk ts)"
  have r: "relay W (content resp) = (?front @ fst (relay W rest), snd (relay W rest))"
    using relay_decoded_prefix [OF assms(5)] assms(4) by simp
  show ?thesis
  proof (cases "case snd (relay W rest) of Some e \<Rightarrow> Some e | None \<Rightarrow> content_exn resp")
    case None
    with stream_relay [OF assms(1-3) r]
    have "yielded (stream_n8n_response cfg W webhook_url request_data auth_token) =
            ?front @ fst (relay W rest)" by simp
    then show ?thesis by (intro exI [of _ "fst (relay W rest)"]) simp
  next
    case (Some e)
    with stream_relay [OF assms(1-3) r]
    have y: "yielded (stream_n8n_response cfg W webhook_url request_data auth_token) =
            ?front @ (fst (relay W rest) @
              [sse (json_dumps (float_repr W) (error_payload (error_message e)))])"
      by (simp add: yielded_on_exception)
    from Some have "\<not> (rest = [] \<and> content_exn resp = None)"
      by (auto split: option.splits)
    with y show ?thesis by blast
  qed
qed

theorem streaming_chunks_reframed_witness:
  \<open>yielded (stream_n8n_response example_settings
      (example_world (Inr (example_response\<lparr>content := example_lines\<rparr>)))
      (lit ''http://n8n.local/webhook/chat'') (n8n_request (example_body True) example_user) None)
     = [lit ''data: {"content": "Hel"}'' @ nl @ nl, lit ''data: lo'' @ nl @ nl, DONE]\<close>
proof -
  from streaming_chunks_reframed [where W = "example_world (Inr (example_response\<lparr>content := example_lines\<rparr>))"
      and cfg = example_settings and webhook_url = "lit ''http://n8n.local/webhook/chat''"
      and request_data = "n8n_request (example_body True) example_user" and auth_token = None
      and resp = "example_response\<lparr>content := example_lines\<rparr>"
      and pre = example_lines and rest = "[]", OF _ _ _ _ example_lines_decoded]
  show ?thesis unfolding example_lines_frames by simp
qed

text \<open>
  Claim C3 as stated, with trailing whitespace alone stripped, fails on a chunk with leading
  blanks: the frame keeps none of them.
\<close>

theorem leading_whitespace_is_stripped_too:
  "yielded (stream_n8n_response example_settings (example_world (Inr example_response))
      (lit ''http://n8n.local/webhook/chat'') (n8n_request (example_body True) example_user) None)
     = [lit ''data: hello'' @ nl @ nl] \<and>
   frames_of_chunk_trailing (lit ''  hello'' @ nl) = [lit ''data:   hello'' @ nl @ nl]"
proof
  from stream_relay [where W = "example_world (Inr example_response)" and resp = example_response
      and cfg = example_settings and u = "lit ''http://n8n.local/webhook/chat''"
      and d = "n8n_request (example_body True) example_user" and t = None, OF _ _ _ relay_hello]
  show "yielded (stream_n8n_response example_settings (example_world (Inr example_response))
      (lit ''http://n8n.local/webhook/chat'') (n8n_request (example_body True) example_user) None)
     = [lit ''data: hello'' @ nl @ nl]"
    by simp
  show "frames_of_chunk_trailing (lit ''  hello'' @ nl) = [lit ''data:   hello'' @ nl @ nl]"
    by code_simp
qed

section \<open>Buffered replies\<close>

text \<open>
  Claim C2, as amended. When the status is 200, the stream flag is false and the body parses
  as a JSON object, the generator yields exactly two frames: the synthesized completion and
  the sentinel. The completion has an id \<^verbatim>\<open>chatcmpl-\<close> followed by eight lower-case
  hexadecimal digits, the object \<^verbatim>\<open>chat.completion\<close>, the current time in seconds, the model
  of the request, one choice with index 0, role \<^verbatim>\<open>assistant\<close> and finish reason \<^verbatim>\<open>stop\<close>,
  three usage counters equal to 0, and as content the reply's \<^verbatim>\<open>content\<close>, else its
  \<^verbatim>\<open>response\<close>, else the reply as a string.
\<close>

theorem buffered_reply_synthesized:
  assumes "post W (the_request cfg webhook_url request_data auth_token) = Inr resp"
      and "status resp = 200" and "\<not> stream_flag request_data"
      and "json_result resp = Inr (JObj result)"
  shows "\<exists>h. length h = 8 \<and> set h \<subseteq> set (lit ''0123456789abcdef'') \<and>
           yielded (stream_n8n_response cfg W webhook_url request_data auth_token) =
             [sse (json_dumps (float_repr W)
                (JObj
                   [(lit ''id'', JStr (lit ''chatcmpl-'' @ h)),
                    (lit ''object'', JStr (lit ''chat.completion'')),
                    (lit ''created'', JInt (time_time W)),
                    (lit ''model'',
                       (case map_of request_data (lit ''model'') of
                          Some m \<Rightarrow> m | None \<Rightarrow> JStr (N8N_MODEL_NAME cfg))),
                    (lit ''choices'',
                       JList
                         [JObj
                            [(lit ''index'', JInt 0),
                             (lit ''message'',
                                JObj
                                  [(lit ''role'', JStr (lit ''assistant'')),
                                   (lit ''content'',
                                      (case map_of result (lit ''content'') of
                                         Some c \<Rightarrow> c
                                       | None \<Rightarrow>
                                           (case map_of result (lit ''response'') of
                                              Some r \<Rightarrow> r
                                            | None \<Rightarrow> JStr (str_of W (JObj result)))))]),
                             (lit ''finish_reason'', JStr (lit ''stop''))]]),
                    (lit ''usage'',
                       JObj
                         [(lit ''prompt_tokens'', JInt 0),
                          (lit ''completion_tokens'', JInt 0),
                          (lit ''total_tokens'', JInt 0)])])),
              DONE]"
proof -
  from stream_buffered [OF assms(1-3)] assms(4)
  have "yielded (stream_n8n_response cfg W webhook_url request_data auth_token) =
          [sse (json_dumps (float_repr W) (formatted_response cfg W request_data result)), DONE]"
    by simp
  then show ?thesis
    using uuid_hex_prefix [of "uuid4 W"]
    by (intro exI [of _ "take 8 (uuid_hex (uuid4 W))"])
       (simp only: formatted_response_def dict_get_def simp_thms)
qed

theorem buffered_reply_synthesized_witness:
  "\<exists>h. length h = 8 \<and> set h \<subseteq> set (lit ''0123456789abcdef'') \<and>
     yielded (stream_n8n_response example_settings (example_world (Inr example_response))
        (lit ''http://n8n.local/webhook/chat'') (n8n_request (example_body False) example_user)
        None) =
       [sse (json_dumps (\<lambda>_. lit ''0.0'')
          (JObj
             [(lit ''id'', JStr (lit ''chatcmpl-'' @ h)),
              (lit ''object'', JStr (lit ''chat.completion'')),
              (lit ''created'', JInt 1700000000),
              (lit ''model'', JStr (lit ''n8n-agent'')),
              (lit ''choices'',
                 JList
                   [JObj
                      [(lit ''index'', JInt 0),
                       (lit ''message'',
                          JObj [(lit ''role'', JStr (lit ''assistant'')),
                                (lit ''content'', JStr (lit ''hi''))]),
                       (lit ''finish_reason'', JStr (lit ''stop''))]]),
              (lit ''usage'',
                 JObj
                   [(lit ''prompt_tokens'', JInt 0),
                    (lit ''completion_tokens'', JInt 0),
                    (lit ''total_tokens'', JInt 0)])])),
        DONE]"
proof -
  have m: "map_of (n8n_request (example_body False) example_user) (lit ''model'') =
             Some (JStr (lit ''n8n-agent''))"
    by (simp add: n8n_request_def example_body_def lit_simps)
  have p: "post (example_world (Inr example_response))
             (the_request example_settings (lit ''http://n8n.local/webhook/chat'')
                (n8n_request (example_body False) example_user) None) = Inr example_response"
    "status example_response = 200"
    "\<not> stream_flag (n8n_request (example_body False) example_user)"
    "json_result example_response = Inr (JObj [(lit ''content'', JStr (lit ''hi''))])"
    by simp_all
  from buffered_reply_synthesized [OF p] show ?thesis
    by (simp add: m)
qed

text \<open>
  Claim C2 as stated covers every reply with status 200. It fails when the body is JSON
  but not an object, here an array holding the object: \<^verbatim>\<open>result.get\<close> raises, and the only
  frame is an error frame, with no completion and no sentinel.
\<close>

theorem non_object_reply_gets_error_frame:
  \<open>yielded (stream_n8n_response example_settings
      (example_world (Inr (example_response\<lparr>json_result :=
          Inr (JList [JObj [(lit ''content'', JStr (lit ''hi''))]])\<rparr>)))
      (lit ''http://n8n.local/webhook/chat'') (n8n_request (example_body False) example_user) None)
     = [lit ''data: {"error": "Unexpected error: '' @ [39] @ lit ''list'' @ [39] @
        lit '' object has no attribute '' @ [39] @ lit ''get'' @ [39] @ lit ''"}'' @ nl @ nl] \<and>
   DONE \<notin> set (yielded (stream_n8n_response example_settings
      (example_world (Inr (example_response\<lparr>json_result :=
          Inr (JList [JObj [(lit ''content'', JStr (lit ''hi''))]])\<rparr>)))
      (lit ''http://n8n.local/webhook/chat'') (n8n_request (example_body False) example_user) None))\<close>
proof -
  let ?resp = "example_response\<lparr>json_result :=
          Inr (JList [JObj [(lit ''content'', JStr (lit ''hi''))]])\<rparr>"
  from stream_buffered [where W = "example_world (Inr ?resp)" and resp = ?resp
      and cfg = example_settings and u = "lit ''http://n8n.local/webhook/chat''"
      and d = "n8n_request (example_body False) example_user" and t = None]
  have y: "yielded (stream_n8n_response example_settings (example_world (Inr ?resp))
      (lit ''http://n8n.local/webhook/chat'') (n8n_request (example_body False) example_user) None)
     = [sse (json_dumps (\<lambda>_. lit ''0.0'')
          (error_payload (lit ''Unexpected error: '' @ attribute_error (JList [JObj [(lit ''content'', JStr (lit ''hi''))]]))))]"
    by (simp add: yielded_on_exception error_message_def)
  show ?thesis
    unfolding y
    using error_frame_not_DONE [of "\<lambda>_. lit ''0.0''"
        "lit ''Unexpected error: '' @ attribute_error (JList [JObj [(lit ''content'', JStr (lit ''hi''))]])"]
    by (simp add: sse_def error_payload_def attribute_error_def join_def
        encode_basestring_ascii_def escape_char_def lit_simps)
qed

section \<open>How a response stream ends\<close>

text \<open>
  Claim C1, as amended. Either the upstream answered 200 to a streaming request and its body
  was relayed to the end without an exception, in which case the generator yields the
  relayed frames and adds nothing to them, or the frames yielded end with the sentinel
  \<^verbatim>\<open>data: [DONE]\<close> or with an error frame.
\<close>

theorem termination_by_sentinel_or_error:
  "(\<exists>resp frames.
       post W (the_request cfg webhook_url request_data auth_token) = Inr resp \<and>
       status resp = 200 \<and> stream_flag request_data \<and>
       relay W (content resp) = (frames, None) \<and> content_exn resp = None \<and>
       yielded (stream_n8n_response cfg W webhook_url request_data auth_token) = frames) \<or>
   properly_terminated W (yielded (stream_n8n_response cfg W webhook_url request_data auth_token))"
proof (cases "post W (the_request cfg webhook_url request_data auth_token)")
  case (Inl e)
  from stream_post_raises [OF Inl] show ?thesis
    by (auto simp add: yielded_on_exception properly_terminated_def is_error_frame_def)
next
  case (Inr resp)
  show ?thesis
  proof (cases "status resp = 200")
    case False
    from stream_http_error [OF Inr False] show ?thesis
      by (auto simp add: yielded_on_exception properly_terminated_def is_error_frame_def
          split: sum.splits)
  next
    case ok: True
    show ?thesis
    proof (cases "stream_flag request_data")
      case True
      obtain frames x where r: "relay W (content resp) = (frames, x)"
        by (cases "relay W (content resp)")
      show ?thesis
      proof (cases "case x of Some e \<Rightarrow> Some e | None \<Rightarrow> content_exn resp")
        case None
        then have "x = None" "content_exn resp = None" by (auto split: option.splits)
        with stream_relay [OF Inr ok True r] Inr ok True r show ?thesis by simp
      next
        case (Some e)
        with stream_relay [OF Inr ok True r] show ?thesis
          by (auto simp add: yielded_on_exception properly_terminated_def is_error_frame_def)
      qed
    next
      case False
      from stream_buffered [OF Inr ok False] show ?thesis
        by (auto simp add: yielded_on_exception properly_terminated_def is_error_frame_def
            split: sum.splits json.splits)
    qed
  qed
qed

theorem termination_by_sentinel_or_error_witness:
  "properly_terminated (example_world (Inr example_response))
     (yielded (stream_n8n_response example_settings (example_world (Inr example_response))
        (lit ''http://n8n.local/webhook/chat'') (n8n_request (example_body False) example_user)
        None))"
  using termination_by_sentinel_or_error [where W = "example_world (Inr example_response)"
      and cfg = example_settings and webhook_url = "lit ''http://n8n.local/webhook/chat''"
      and request_data = "n8n_request (example_body False) example_user" and auth_token = None]
  by simp

text \<open>
  Claim C1 as stated fails for a streaming reply that the upstream closes without sending
  the sentinel: the frames end with the last relayed chunk.
\<close>

theorem streaming_relay_ends_without_sentinel:
  \<open>yielded (stream_n8n_response example_settings
      (example_world (Inr (example_response\<lparr>content := [''data: {"content": "Hel"}'' @ [CHR 0x0A]]\<rparr>)))
      (lit ''http://n8n.local/webhook/chat'') (n8n_request (example_body True) example_user) None)
     = [lit ''data: {"content": "Hel"}'' @ nl @ nl] \<and>
   \<not> properly_terminated
      (example_world (Inr (example_response\<lparr>content := [''data: {"content": "Hel"}'' @ [CHR 0x0A]]\<rparr>)))
      (yielded (stream_n8n_response example_settings
        (example_world (Inr (example_response\<lparr>content := [''data: {"content": "Hel"}'' @ [CHR 0x0A]]\<rparr>)))
        (lit ''http://n8n.local/webhook/chat'') (n8n_request (example_body True) example_user) None))\<close>
proof -
  let ?resp = \<open>example_response\<lparr>content := [''data: {"content": "Hel"}'' @ [CHR 0x0A]]\<rparr>\<close>
  have r: \<open>relay (example_world (Inr ?resp)) (content ?resp) =
      ([lit ''data: {"content": "Hel"}'' @ nl @ nl], None)\<close>
    using relay_unterminated by (simp del: relay.simps)
  from stream_relay [where W = "example_world (Inr ?resp)" and resp = ?resp
      and cfg = example_settings and u = "lit ''http://n8n.local/webhook/chat''"
      and d = "n8n_request (example_body True) example_user" and t = None, OF _ _ _ r]
  have y: \<open>yielded (stream_n8n_response example_settings (example_world (Inr ?resp))
      (lit ''http://n8n.local/webhook/chat'') (n8n_request (example_body True) example_user) None)
     = [lit ''data: {"content": "Hel"}'' @ nl @ nl]\<close>
    by simp
  show ?thesis
    unfolding y properly_terminated_def using chunk_frame_not_terminal by simp
qed

section \<open>Transport faults\<close>

text \<open>
  Claim C7. When posting the request, reading the body of an error reply as text, reading
  the body as JSON or iterating over the streamed body raises an exception \<open>e\<close>, the
  generator yields one error frame and ends: the frame is the last one, its payload is
  \<^verbatim>\<open>{"error": "Connection error: <cause>"}\<close> for an \<^verbatim>\<open>aiohttp.ClientError\<close> and
  \<^verbatim>\<open>{"error": "Unexpected error: <cause>"}\<close> for any other exception, and the only frames
  before it are the chunks relayed before the fault. The error frame is not the sentinel,
  and every frame yielded, on any path, starts with \<^verbatim>\<open>data: \<close> and ends with a blank line.
\<close>

theorem transport_fault_yields_one_error_frame:
  "(post W (the_request cfg webhook_url request_data auth_token) = Inl e \<longrightarrow>
      yielded (stream_n8n_response cfg W webhook_url request_data auth_token) =
        [sse (json_dumps (float_repr W) (JObj [(lit ''error'', JStr (error_message e))]))]) \<and>
   (post W (the_request cfg webhook_url request_data auth_token) = Inr resp \<and>
    status resp \<noteq> 200 \<and> text_result resp = Inl e \<longrightarrow>
      yielded (stream_n8n_response cfg W webhook_url request_data auth_token) =
        [sse (json_dumps (float_repr W) (JObj [(lit ''error'', JStr (error_message e))]))]) \<and>
   (post W (the_request cfg webhook_url request_data auth_token) = Inr resp \<and>
    status resp = 200 \<and> \<not> stream_flag request_data \<and> json_result resp = Inl e \<longrightarrow>
      yielded (stream_n8n_response cfg W webhook_url request_data auth_token) =
        [sse (json_dumps (float_repr W) (JObj [(lit ''error'', JStr (error_message e))]))]) \<and>
   (post W (the_request cfg webhook_url request_data auth_token) = Inr resp \<and>
    status resp = 200 \<and> stream_flag request_data \<and>
    relay W (content resp) = (frames, None) \<and> content_exn resp = Some e \<longrightarrow>
      yielded (stream_n8n_response cfg W webhook_url request_data auth_token) =
        frames @ [sse (json_dumps (float_repr W) (JObj [(lit ''error'', JStr (error_message e))]))]) \<and>
   (\<forall>f \<in> set (yielded (stream_n8n_response cfg W webhook_url request_data auth_token)).
      startswith f (lit ''data: '') \<and> endswith f (nl @ nl)) \<and>
   sse (json_dumps (float_repr W) (JObj [(lit ''error'', JStr (error_message e))])) \<noteq> DONE"
proof (intro conjI impI ballI)
  assume "post W (the_request cfg webhook_url request_data auth_token) = Inl e"
  from stream_post_raises [OF this]
  show "yielded (stream_n8n_response cfg W webhook_url request_data auth_token) =
        [sse (json_dumps (float_repr W) (JObj [(lit ''error'', JStr (error_message e))]))]"
    by (simp add: yielded_on_exception error_payload_def)
next
  assume a: "post W (the_request cfg webhook_url request_data auth_token) = Inr resp \<and>
    status resp \<noteq> 200 \<and> text_result resp = Inl e"
  then have "post W (the_request cfg webhook_url request_data auth_token) = Inr resp"
    "status resp \<noteq> 200" by simp_all
  from stream_http_error [OF this] a
  show "yielded (stream_n8n_response cfg W webhook_url request_data auth_token) =
        [sse (json_dumps (float_repr W) (JObj [(lit ''error'', JStr (error_message e))]))]"
    by (simp add: yielded_on_exception error_payload_def)
next
  assume a: "post W (the_request cfg webhook_url request_data auth_token) = Inr resp \<and>
    status resp = 200 \<and> \<not> stream_flag request_data \<and> json_result resp = Inl e"
  then have "post W (the_request cfg webhook_url request_data auth_token) = Inr resp"
    "status resp = 200" "\<not> stream_flag request_data" by simp_all
  from stream_buffered [OF this] a
  show "yielded (stream_n8n_response cfg W webhook_url request_data auth_token) =
        [sse (json_dumps (float_repr W) (JObj [(lit ''error'', JStr (error_message e))]))]"
    by (simp add: yielded_on_exception error_payload_def)
next
  assume a: "post W (the_request cfg webhook_url request_data auth_token) = Inr resp \<and>
    status resp = 200 \<and> stream_flag request_data \<and>
    relay W (content resp) = (frames, None) \<and> content_exn resp = Some e"
  then have "post W (the_request cfg webhook_url request_data auth_token) = Inr resp"
    "status resp = 200" "stream_flag request_data" "relay W (content resp) = (frames, None)"
    by simp_all
  from stream_relay [OF this] a
  show "yielded (stream_n8n_response cfg W webhook_url request_data auth_token) =
        frames @ [sse (json_dumps (float_repr W) (JObj [(lit ''error'', JStr (error_message e))]))]"
    by (simp add: yielded_on_exception error_payload_def)
next
  fix f assume "f \<in> set (yielded (stream_n8n_response cfg W webhook_url request_data auth_token))"
  from yielded_framed [OF this]
  show "startswith f (lit ''data: '')" "endswith f (nl @ nl)" by simp_all
next
  show "sse (json_dumps (float_repr W) (JObj [(lit ''error'', JStr (error_message e))])) \<noteq> DONE"
    using error_frame_not_DONE [of "float_repr W" "error_message e"]
    by (simp add: error_payload_def)
qed

theorem transport_fault_yields_one_error_frame_witness:
  \<open>yielded (stream_n8n_response example_settings
      (example_world (Inl (ClientError (lit ''Cannot connect to host n8n.local:443''))))
      (lit ''http://n8n.local/webhook/chat'') (n8n_request (example_body False) example_user) None)
     = [lit ''data: {"error": "Connection error: Cannot connect to host n8n.local:443"}'' @ nl @ nl] \<and>
   yielded (stream_n8n_response example_settings
      (example_world (Inr (example_response\<lparr>status := 502,
          text_result := Inl (OtherException (lit ''timed out''))\<rparr>)))
      (lit ''http://n8n.local/webhook/chat'') (n8n_request (example_body False) example_user) None)
     = [lit ''data: {"error": "Unexpected error: timed out"}'' @ nl @ nl] \<and>
   yielded (stream_n8n_response example_settings
      (example_world (Inr (example_response\<lparr>
          json_result := Inl (OtherException (lit ''Expecting value: line 1 column 1 (char 0)''))\<rparr>)))
      (lit ''http://n8n.local/webhook/chat'') (n8n_request (example_body False) example_user) None)
     = [lit ''data: {"error": "Unexpected error: Expecting value: line 1 column 1 (char 0)"}'' @ nl @ nl] \<and>
   yielded (stream_n8n_response example_settings
      (example_world (Inr (example_response\<lparr>
          content_exn := Some (ClientError (lit ''Response payload is not completed''))\<rparr>)))
      (lit ''http://n8n.local/webhook/chat'') (n8n_request (example_body True) example_user) None)
     = [lit ''data: hello'' @ nl @ nl,
        lit ''data: {"error": "Connection error: Response payload is not completed"}'' @ nl @ nl]\<close>
proof -
  let ?u = "lit ''http://n8n.local/webhook/chat''"
  let ?e1 = "ClientError (lit ''Cannot connect to host n8n.local:443'')"
  let ?e2 = "OtherException (lit ''timed out'')"
  let ?r2 = "example_response\<lparr>status := 502, text_result := Inl ?e2\<rparr>"
  let ?e3 = "OtherException (lit ''Expecting value: line 1 column 1 (char 0)'')"
  let ?r3 = "example_response\<lparr>json_result := Inl ?e3\<rparr>"
  let ?e4 = "ClientError (lit ''Response payload is not completed'')"
  let ?r4 = "example_response\<lparr>content_exn := Some ?e4\<rparr>"
  have m: \<open>concat (map escape_char (error_message ?e1)) =
             lit ''Connection error: Cannot connect to host n8n.local:443''\<close>
    \<open>concat (map escape_char (error_message ?e2)) = lit ''Unexpected error: timed out''\<close>
    \<open>concat (map escape_char (error_message ?e3)) =
       lit ''Unexpected error: Expecting value: line 1 column 1 (char 0)''\<close>
    \<open>concat (map escape_char (error_message ?e4)) =
       lit ''Connection error: Response payload is not completed''\<close>
    by (simp_all add: error_message_def escape_char_def lit_simps)
  have r4: "relay (example_world (Inr ?r4)) (content ?r4) = ([lit ''data: hello'' @ nl @ nl], None)"
    using relay_hello [of "example_world (Inr ?r4)"] by (simp del: relay.simps)
  have "yielded (stream_n8n_response example_settings (example_world (Inl ?e1)) ?u
          (n8n_request (example_body False) example_user) None) =
        [sse (json_dumps (\<lambda>_. lit ''0.0'') (JObj [(lit ''error'', JStr (error_message ?e1))]))]"
    using transport_fault_yields_one_error_frame [where W = "example_world (Inl ?e1)"
        and cfg = example_settings and webhook_url = ?u and auth_token = None
        and request_data = "n8n_request (example_body False) example_user" and e = ?e1]
    by simp
  moreover
  have "yielded (stream_n8n_response example_settings (example_world (Inr ?r2)) ?u
          (n8n_request (example_body False) example_user) None) =
        [sse (json_dumps (\<lambda>_. lit ''0.0'') (JObj [(lit ''error'', JStr (error_message ?e2))]))]"
    using transport_fault_yields_one_error_frame [where W = "example_world (Inr ?r2)"
        and cfg = example_settings and webhook_url = ?u and auth_token = None
        and request_data = "n8n_request (example_body False) example_user" and e = ?e2
        and resp = ?r2]
    by simp
  moreover
  have "yielded (stream_n8n_response example_settings (example_world (Inr ?r3)) ?u
          (n8n_request (example_body False) example_user) None) =
        [sse (json_dumps (\<lambda>_. lit ''0.0'') (JObj [(lit ''error'', JStr (error_message ?e3))]))]"
    using transport_fault_yields_one_error_frame [where W = "example_world (Inr ?r3)"
        and cfg = example_settings and webhook_url = ?u and auth_token = None
        and request_data = "n8n_request (example_body False) example_user" and e = ?e3
        and resp = ?r3]
    by simp
  moreover
  have "yielded (stream_n8n_response example_settings (example_world (Inr ?r4)) ?u
          (n8n_request (example_body True) example_user) None) =
        [lit ''data: hello'' @ nl @ nl] @
        [sse (json_dumps (\<lambda>_. lit ''0.0'') (JObj [(lit ''error'', JStr (error_message ?e4))]))]"
    using transport_fault_yields_one_error_frame [where W = "example_world (Inr ?r4)"
        and cfg = example_settings and webhook_url = ?u and auth_token = None
        and request_data = "n8n_request (example_body True) example_user" and e = ?e4
        and resp = ?r4 and frames = "[lit ''data: hello'' @ nl @ nl]"] r4
    by (simp del: relay.simps)
  ultimately show ?thesis
    unfolding error_frame_text m by (simp add: lit_simps)
qed

section \<open>The auth token\<close>

text \<open>
  Claim C8, as amended. When a token is configured, neither empty nor the placeholder, the
  request posted upstream carries the header \<^verbatim>\<open>Authorization: Bearer <token>\<close> with exactly
  that token. The router and the translator never write the token into a log line
  themselves: the lines are built from the caller's email, the upstream status and body and
  the text of an exception, so another token, to whose request the upstream answers alike,
  gives the same log.
\<close>

theorem token_sent_as_bearer_and_never_written_to_log:
  assumes "N8N_WEBHOOK_AUTH_TOKEN cfg \<noteq> []"
      and "N8N_WEBHOOK_AUTH_TOKEN cfg \<noteq> lit ''YOUR_N8N_WEBHOOK_AUTH_TOKEN''"
      and "N8N_WEBHOOK_URL cfg \<noteq> []"
      and "N8N_WEBHOOK_URL cfg \<noteq> lit ''YOUR_N8N_WEBHOOK_URL''"
      and "map (post W)
             (requests_of (chat_completions (cfg\<lparr>N8N_WEBHOOK_AUTH_TOKEN := other\<rparr>) W body usr)) =
           map (post W) (requests_of (chat_completions cfg W body usr))"
  shows "map headers (requests_of (chat_completions cfg W body usr)) =
           [[(lit ''Content-Type'', lit ''application/json''),
             (lit ''Authorization'', lit ''Bearer '' @ N8N_WEBHOOK_AUTH_TOKEN cfg)]] \<and>
         log_of (chat_completions (cfg\<lparr>N8N_WEBHOOK_AUTH_TOKEN := other\<rparr>) W body usr) =
           log_of (chat_completions cfg W body usr)"
proof
  from assms(1-4)
  show "map headers (requests_of (chat_completions cfg W body usr)) =
           [[(lit ''Content-Type'', lit ''application/json''),
             (lit ''Authorization'', lit ''Bearer '' @ N8N_WEBHOOK_AUTH_TOKEN cfg)]]"
    by (simp add: requests_of_chat_completions the_request_def build_headers_def)
  let ?cfg' = "cfg\<lparr>N8N_WEBHOOK_AUTH_TOKEN := other\<rparr>"
  let ?t' = "if other \<noteq> lit ''YOUR_N8N_WEBHOOK_AUTH_TOKEN'' then Some other else None"
  from assms(3-5)
  have same: "post W (the_request cfg (N8N_WEBHOOK_URL cfg) (n8n_request body usr) ?t') =
              post W (the_request cfg (N8N_WEBHOOK_URL cfg) (n8n_request body usr)
                        (Some (N8N_WEBHOOK_AUTH_TOKEN cfg)))"
    using assms(2)
    by (simp add: requests_of_chat_completions the_request_token_setting cong: if_cong)
  have "log_of (chat_completions ?cfg' W body usr) =
          (INFO, lit ''n8n chat completion request from user: '' @ email usr) #
          logged (stream_n8n_response cfg W (N8N_WEBHOOK_URL cfg) (n8n_request body usr) ?t')"
    using assms(3,4) log_of_chat_completions [of ?cfg' W body usr]
    by (simp add: stream_token_setting)
  moreover
  have "log_of (chat_completions cfg W body usr) =
          (INFO, lit ''n8n chat completion request from user: '' @ email usr) #
          logged (stream_n8n_response cfg W (N8N_WEBHOOK_URL cfg) (n8n_request body usr)
                    (Some (N8N_WEBHOOK_AUTH_TOKEN cfg)))"
    using assms(2-4) log_of_chat_completions [of cfg W body usr] by simp
  ultimately
  show "log_of (chat_completions ?cfg' W body usr) = log_of (chat_completions cfg W body usr)"
    using logged_stream_independent [OF same] by simp
qed

theorem token_sent_as_bearer_and_never_written_to_log_witness:
  "map headers (requests_of (chat_completions example_settings
      (example_world (Inr example_response)) (example_body False) example_user)) =
     [[(lit ''Content-Type'', lit ''application/json''),
       (lit ''Authorization'', lit ''Bearer s3cret'')]] \<and>
   log_of (chat_completions (example_settings\<lparr>N8N_WEBHOOK_AUTH_TOKEN := lit ''0ther''\<rparr>)
      (example_world (Inr example_response)) (example_body False) example_user) =
   log_of (chat_completions example_settings
      (example_world (Inr example_response)) (example_body False) example_user)"
proof -
  have h: "N8N_WEBHOOK_AUTH_TOKEN example_settings \<noteq> []"
    "N8N_WEBHOOK_AUTH_TOKEN example_settings \<noteq> lit ''YOUR_N8N_WEBHOOK_AUTH_TOKEN''"
    "N8N_WEBHOOK_URL example_settings \<noteq> []"
    "N8N_WEBHOOK_URL example_settings \<noteq> lit ''YOUR_N8N_WEBHOOK_URL''"
    by (simp_all add: lit_simps)
  have p: "map (post (example_world (Inr example_response)))
             (requests_of (chat_completions
                (example_settings\<lparr>N8N_WEBHOOK_AUTH_TOKEN := lit ''0ther''\<rparr>)
                (example_world (Inr example_response)) (example_body False) example_user)) =
           map (post (example_world (Inr example_response)))
             (requests_of (chat_completions example_settings
                (example_world (Inr example_response)) (example_body False) example_user))"
    using h(3,4) by (simp add: requests_of_chat_completions)
  from token_sent_as_bearer_and_never_written_to_log [OF h p] show ?thesis
    by (simp add: lit_simps)
qed

text \<open>
  Claim C8 as stated, that the token never appears in any log line, fails when the upstream
  rejects the request and quotes the token in its body: the translator logs the body as it
  is.
\<close>

theorem upstream_echo_puts_token_in_log:
  "log_of (chat_completions example_settings
      (example_world (Inr (example_response\<lparr>status := 401,
          text_result := Inr (lit ''invalid token s3cret'')\<rparr>)))
      (example_body False) example_user) =
     [(INFO, lit ''n8n chat completion request from user: ada@example.org''),
      (ERROR, lit ''n8n webhook error: 401 - invalid token '' @
              N8N_WEBHOOK_AUTH_TOKEN example_settings)] \<and>
   sublist (N8N_WEBHOOK_AUTH_TOKEN example_settings)
     (snd (last (log_of (chat_completions example_settings
        (example_world (Inr (example_response\<lparr>status := 401,
            text_result := Inr (lit ''invalid token s3cret'')\<rparr>)))
        (example_body False) example_user))))"
proof -
  let ?resp = "example_response\<lparr>status := 401, text_result := Inr (lit ''invalid token s3cret'')\<rparr>"
  have h: "N8N_WEBHOOK_URL example_settings \<noteq> []"
    "N8N_WEBHOOK_URL example_settings \<noteq> lit ''YOUR_N8N_WEBHOOK_URL''"
    by (simp_all add: lit_simps)
  have t: "N8N_WEBHOOK_AUTH_TOKEN example_settings \<noteq> lit ''YOUR_N8N_WEBHOOK_AUTH_TOKEN''"
    by (simp add: lit_simps)
  have "logged (stream_n8n_response example_settings (example_world (Inr ?resp))
           (N8N_WEBHOOK_URL example_settings) (n8n_request (example_body False) example_user)
           (Some (N8N_WEBHOOK_AUTH_TOKEN example_settings))) =
        [(ERROR, lit ''n8n webhook error: '' @ str_int 401 @ lit '' - '' @
                 lit ''invalid token s3cret'')]"
    by (subst stream_http_error [where resp = ?resp]) simp_all
  with log_of_chat_completions [OF h, of "example_world (Inr ?resp)" "example_body False" example_user] t
  have l: "log_of (chat_completions example_settings (example_world (Inr ?resp))
             (example_body False) example_user) =
        [(INFO, lit ''n8n chat completion request from user: '' @ email example_user),
         (ERROR, lit ''n8n webhook error: '' @ str_int 401 @ lit '' - '' @
                 lit ''invalid token s3cret'')]"
    by simp
  have e: "lit ''n8n webhook error: '' @ str_int 401 @ lit '' - '' @ lit ''invalid token s3cret'' =
           lit ''n8n webhook error: 401 - invalid token '' @ N8N_WEBHOOK_AUTH_TOKEN example_settings"
    by (simp add: str_int_eval lit_simps)
  have m: "lit ''n8n chat completion request from user: '' @ email example_user =
           lit ''n8n chat completion request from user: ada@example.org''"
    by (simp add: example_user_def lit_simps)
  show ?thesis
    unfolding l e m by (simp add: sublist_appendI)
qed

end
